theory Spec2Isabelle
  imports Main "HOL-Library.Word"
begin

section \<open>Library behaviour the handlers rely on\<close>

subsection \<open>Bytes, digits and integer formatting\<close>

text \<open>
  A Go \<open>string\<close> is a byte sequence and \<open>len\<close> counts its bytes; here it is a
  \<open>string\<close> (a list of 8-bit characters) and \<open>length\<close>.
\<close>

definition byteOf :: "char \<Rightarrow> nat" where
  "byteOf ch = of_char ch"

definition digitChars :: string where
  "digitChars = ''0123456789abcdef''"

text \<open>The digits of \<open>n\<close> in base \<open>b\<close>, most significant first (\<open>%d\<close> and \<open>%x\<close> of fmt).\<close>

function formatBase :: "nat \<Rightarrow> nat \<Rightarrow> string" where
  "formatBase b n =
     (if b < 2 \<or> n < b then [digitChars ! (n mod 16)]
      else formatBase b (n div b) @ [digitChars ! (n mod b)])"
  by pat_completeness auto
termination
  by (relation "measure (\<lambda>(b, n). n)") auto

declare formatBase.simps [simp del]

definition formatUint :: "nat \<Rightarrow> string" where
  "formatUint n = formatBase 10 n"

definition formatHex :: "nat \<Rightarrow> string" where
  "formatHex n = formatBase 16 n"

text \<open>\<open>%d\<close> of a signed integer, and \<open>big.Int.String\<close>: a minus sign, then the magnitude.\<close>

definition formatInt :: "int \<Rightarrow> string" where
  "formatInt i = (if i < 0 then CHR ''-'' # formatUint (nat (- i)) else formatUint (nat i))"

subsection \<open>strconv.ParseUint(s, 10, 64)\<close>

text \<open>
  With base 10 no prefix and no underscore is accepted: every byte must be a decimal
  digit. The scan stops with a range error as soon as the value leaves 64 bits.
\<close>

definition maxUint64 :: nat where
  "maxUint64 = 2 ^ 64 - 1"

definition ErrSyntax :: string where
  "ErrSyntax = ''invalid syntax''"

definition ErrRange :: string where
  "ErrRange = ''value out of range''"

fun parseUintLoop :: "nat \<Rightarrow> string \<Rightarrow> string + nat" where
  "parseUintLoop n [] = Inr n"
| "parseUintLoop n (c # cs) =
     (if \<not> (48 \<le> byteOf c \<and> byteOf c \<le> 57) then Inl ErrSyntax
      else if n \<ge> maxUint64 div 10 + 1 then Inl ErrRange
      else (let n1 = n * 10 + (byteOf c - 48)
            in if n1 > maxUint64 then Inl ErrRange else parseUintLoop n1 cs))"

definition ParseUint :: "string \<Rightarrow> string + 64 word" where
  "ParseUint s =
     (if s = [] then Inl ErrSyntax
      else (case parseUintLoop 0 s of Inl e \<Rightarrow> Inl e | Inr n \<Rightarrow> Inr (word_of_nat n)))"

subsection \<open>big.Int\<close>

text \<open>
  \<open>big.Int\<close> is an unbounded integer: \<open>int\<close>. \<open>Sub\<close>, \<open>Mul\<close> and \<open>Add\<close> are
  \<open>-\<close>, \<open>*\<close> and \<open>+\<close>. \<open>Cmp\<close> returns -1, 0 or 1. \<open>Div\<close> is Euclidean division:
  the remainder is never negative, whatever the signs (a zero divisor panics in Go; the
  only divisor in this program is the constant 1000000000).
\<close>

definition Cmp :: "int \<Rightarrow> int \<Rightarrow> int" where
  "Cmp x y = (if x < y then - 1 else if x = y then 0 else 1)"

definition Div :: "int \<Rightarrow> int \<Rightarrow> int" where
  "Div x y = (if y < 0 then - (x div (- y)) else x div y)"

text \<open>
  \<open>SetString(s, base)\<close> for a base between 2 and 36: an optional sign (\<open>+\<close> or
  \<open>-\<close>), then at least one digit of that base, letters in either case, and nothing
  after the digits. No base prefix and no underscore is recognised unless the base is 0.
\<close>

definition MaxBase :: nat where
  "MaxBase = 62"

definition digitVal :: "char \<Rightarrow> nat" where
  "digitVal ch =
     (let c = byteOf ch
      in if 48 \<le> c \<and> c \<le> 57 then c - 48
         else if 97 \<le> c \<and> c \<le> 122 then c - 97 + 10
         else if 65 \<le> c \<and> c \<le> 90 then c - 65 + 10
         else MaxBase + 1)"

text \<open>The digit loop: value so far, digits read so far, and the unread rest.\<close>

fun scanDigits :: "nat \<Rightarrow> nat \<Rightarrow> nat \<Rightarrow> string \<Rightarrow> nat \<times> nat \<times> string" where
  "scanDigits b acc count [] = (acc, count, [])"
| "scanDigits b acc count (ch # r) =
     (if digitVal ch \<ge> b then (acc, count, ch # r)
      else scanDigits b (acc * b + digitVal ch) (Suc count) r)"

definition scanSign :: "string \<Rightarrow> (bool \<times> string) option" where
  "scanSign s =
     (case s of
        [] \<Rightarrow> None
      | ch # r \<Rightarrow>
          if ch = CHR ''-'' then Some (True, r)
          else if ch = CHR ''+'' then Some (False, r)
          else Some (False, ch # r))"

definition SetString :: "string \<Rightarrow> nat \<Rightarrow> int option" where
  "SetString s base =
     (case scanSign s of
        None \<Rightarrow> None
      | Some (neg, r) \<Rightarrow>
          (case scanDigits base 0 0 r of
             (v, count, rest) \<Rightarrow>
               if count = 0 then None
               else if rest \<noteq> [] then None
               else Some (if neg then - int v else int v)))"

subsection \<open>Slicing\<close>

text \<open>\<open>s[:n]\<close> and \<open>s[n:]\<close> panic when \<open>n\<close> exceeds the length; \<open>None\<close> is the panic.\<close>

definition sliceTo :: "string \<Rightarrow> nat \<Rightarrow> string option" where
  "sliceTo s n = (if n \<le> length s then Some (take n s) else None)"

definition sliceFrom :: "string \<Rightarrow> nat \<Rightarrow> string option" where
  "sliceFrom s n = (if n \<le> length s then Some (drop n s) else None)"

section \<open>hexToBigInt\<close>

datatype hex_result = Parsed int | Failed string | Panicked

definition hexToBigInt :: "string \<Rightarrow> hex_result" where
  "hexToBigInt hexStr =
     (if length hexStr > 2 then
        (case sliceTo hexStr 2 of
           None \<Rightarrow> Panicked
         | Some pre \<Rightarrow>
             if pre = ''0x'' then
               (case sliceFrom hexStr 2 of
                  None \<Rightarrow> Panicked
                | Some rest \<Rightarrow>
                    (case SetString rest 16 of
                       None \<Rightarrow> Failed ''failed to parse hex string''
                     | Some i \<Rightarrow> Parsed i))
             else Failed ''invalid hex format'')
      else Failed ''invalid hex format'')"

section \<open>Response models (package models)\<close>

text \<open>
  Each Go struct is a record; an anonymous nested struct gets a record of its own. Field
  names are the source's, with a prefix where two structs share a name.
\<close>

record ExecutionPayload =
  payload_BlockNumber :: string
  payload_FeeRecipient :: string
  payload_ExtraData :: string
  payload_BaseFeePerGas :: string
  payload_GasUsed :: string

record BeaconBlockBody =
  ExecutionPayload :: ExecutionPayload

record BeaconBlockMessage =
  Body :: BeaconBlockBody

record BeaconBlockData =
  Message :: BeaconBlockMessage

record BeaconBlockResponse =
  Version :: string
  Data :: BeaconBlockData

record BeaconHeaderMessage =
  Slot :: string

record BeaconHeader =
  header_Message :: BeaconHeaderMessage

record BeaconHeaderEntry =
  Header :: BeaconHeader

record BeaconHeadersResponse =
  headers_Data :: "BeaconHeaderEntry list"

record ExecutionBlockTx =
  BlockHash :: string
  BlockNumber :: string
  From :: string
  Gas :: string
  GasPrice :: string
  Hash :: string
  Input :: string
  Nonce :: string
  To :: string
  TransactionIndex :: string
  Value :: string
  Type :: string

record ExecutionBlockResult =
  Number :: string
  BaseFeePerGas :: string
  ExtraData :: string
  Transactions :: "ExecutionBlockTx list"

record ExecutionBlockFullResponse =
  Result :: ExecutionBlockResult

record SyncCommitteeData =
  Validators :: "string list"

record SyncCommitteeResponse =
  ExecutionOptimistic :: bool
  Finalized :: bool
  sync_Data :: SyncCommitteeData

section \<open>Upstream HTTP\<close>

text \<open>
  What one HTTP exchange gives the caller: a transport error, or a status code together
  with what \<open>json.Decode\<close> makes of the body for the struct the caller decodes into
  (\<open>Inl\<close> a decode error). The body is looked at only after the status code.
\<close>

datatype 'a http_reply = TransportError string | Reply int "string + 'a"

datatype param = PString string | PBool bool

record JSONRPCRequest =
  Jsonrpc :: string
  Method :: string
  Params :: "param list"
  Id :: int

datatype request = GET string | POST string JSONRPCRequest

definition StatusOK :: int where "StatusOK = 200"
definition StatusBadRequest :: int where "StatusBadRequest = 400"
definition StatusNotFound :: int where "StatusNotFound = 404"
definition StatusInternalServerError :: int where "StatusInternalServerError = 500"

text \<open>
  A service is its endpoint and its HTTP client; the client is the function from the
  request sent to the reply received.
\<close>

record ConsensusService =
  cs_endpoint :: string
  cs_headers :: "string \<Rightarrow> BeaconHeadersResponse http_reply"
  cs_blocks :: "string \<Rightarrow> BeaconBlockResponse http_reply"
  cs_committees :: "string \<Rightarrow> SyncCommitteeResponse http_reply"

record ExecutionService =
  es_endpoint :: string
  es_post :: "string \<Rightarrow> JSONRPCRequest \<Rightarrow> ExecutionBlockFullResponse http_reply"

section \<open>Services\<close>

text \<open>Every service call returns its result and the requests it issued.\<close>

definition SLOTS_PER_EPOCH :: "64 word" where
  "SLOTS_PER_EPOCH = 32"

definition GetHeadSlot :: "ConsensusService \<Rightarrow> (string + 64 word) \<times> request list" where
  "GetHeadSlot c =
     (let url = cs_endpoint c @ ''/eth/v1/beacon/headers''
      in (case cs_headers c url of
            TransportError err \<Rightarrow> Inl err
          | Reply code body \<Rightarrow>
              if code \<noteq> StatusOK then Inl (''unexpected status code: '' @ formatInt code)
              else (case body of
                      Inl err \<Rightarrow> Inl err
                    | Inr headersResp \<Rightarrow>
                        if length (headers_Data headersResp) = 0
                        then Inl ''no header data returned''
                        else ParseUint
                               (Slot (header_Message (Header (headers_Data headersResp ! 0))))),
          [GET url]))"

definition GetBeaconBlockBySlot ::
    "ConsensusService \<Rightarrow> 64 word \<Rightarrow> (string + BeaconBlockResponse) \<times> request list" where
  "GetBeaconBlockBySlot c slot =
     (let url = cs_endpoint c @ ''/eth/v2/beacon/blocks/'' @ formatUint (unat slot)
      in (case cs_blocks c url of
            TransportError err \<Rightarrow> Inl err
          | Reply code body \<Rightarrow>
              if code = StatusNotFound then Inl ''block not found''
              else if code \<noteq> StatusOK then Inl (''unexpected status code '' @ formatInt code)
              else (case body of Inl err \<Rightarrow> Inl err | Inr blockResp \<Rightarrow> Inr blockResp),
          [GET url]))"

definition syncCommitteesUrl :: "string \<Rightarrow> 64 word \<Rightarrow> string" where
  "syncCommitteesUrl ep slot =
     (let epoch = slot div SLOTS_PER_EPOCH;
          state_id = epoch * SLOTS_PER_EPOCH
      in ep @ ''/eth/v1/beacon/states/'' @ formatUint (unat state_id)
            @ ''/sync_committees?epoch='' @ formatUint (unat epoch))"

definition GetSyncCommitteeDuties ::
    "ConsensusService \<Rightarrow> 64 word \<Rightarrow> (string + string list) \<times> request list" where
  "GetSyncCommitteeDuties c slot =
     (let url = syncCommitteesUrl (cs_endpoint c) slot
      in (case cs_committees c url of
            TransportError err \<Rightarrow> Inl err
          | Reply code body \<Rightarrow>
              if code = StatusNotFound then Inl ''sync committee duties not found for this slot''
              else if code \<noteq> StatusOK
              then Inl (''unexpected status code '' @ formatInt code
                        @ '' from sync duties endpoint'')
              else (case body of
                      Inl err \<Rightarrow> Inl err
                    | Inr scResp \<Rightarrow> Inr (Validators (sync_Data scResp))),
          [GET url]))"

definition GetExecutionBlockByNumber ::
    "ExecutionService \<Rightarrow> string \<Rightarrow> (string + ExecutionBlockFullResponse) \<times> request list" where
  "GetExecutionBlockByNumber e blockNumberHex =
     (let reqBody = \<lparr>Jsonrpc = ''2.0'', Method = ''eth_getBlockByNumber'',
                     Params = [PString blockNumberHex, PBool True], Id = 1\<rparr>
      in (case es_post e (es_endpoint e) reqBody of
            TransportError err \<Rightarrow> Inl err
          | Reply code body \<Rightarrow>
              if code \<noteq> StatusOK then Inl (''unexpected status code: '' @ formatInt code)
              else (case body of
                      Inl err \<Rightarrow> Inl err
                    | Inr blockResp \<Rightarrow>
                        if Number (Result blockResp) = []
                        then Inl ''block not found on execution layer''
                        else Inr blockResp),
          [POST (es_endpoint e) reqBody]))"

section \<open>Handlers\<close>

record BlockRewardHandler =
  consensusService :: ConsensusService
  executionService :: ExecutionService

text \<open>
  \<open>c.JSON(code, gin.H{...})\<close>: the status code and the object's fields. A handler that
  panics sends nothing of its own.
\<close>

datatype jvalue = JString string | JStrings "string list"

datatype response = JSON int "(string \<times> jvalue) list" | HandlerPanic

text \<open>The loop over the transactions; \<open>None\<close> when a call inside it panics.\<close>

fun rewardLoop :: "int \<Rightarrow> int \<Rightarrow> ExecutionBlockTx list \<Rightarrow> int option" where
  "rewardLoop baseFee totalReward [] = Some totalReward"
| "rewardLoop baseFee totalReward (tx # txs) =
     (case hexToBigInt (GasPrice tx) of
        Panicked \<Rightarrow> None
      | Failed err \<Rightarrow> rewardLoop baseFee totalReward txs
      | Parsed gasPrice \<Rightarrow>
          (case hexToBigInt (Gas tx) of
             Panicked \<Rightarrow> None
           | Failed err \<Rightarrow> rewardLoop baseFee totalReward txs
           | Parsed gas \<Rightarrow>
               if Cmp gasPrice baseFee > 0
               then (let priorityFee = gasPrice - baseFee;
                         txReward = priorityFee * gas
                     in rewardLoop baseFee (totalReward + txReward) txs)
               else rewardLoop baseFee totalReward txs))"

definition divider :: int where
  "divider = 1000000000"

definition rewardInGwei :: "int \<Rightarrow> int" where
  "rewardInGwei totalReward = Div totalReward divider"

definition blockStatus :: "ExecutionBlockFullResponse \<Rightarrow> string" where
  "blockStatus execBlock =
     (if length (ExtraData (Result execBlock)) > 20 then ''relay'' else ''vanilla'')"

text \<open>GetBlockReward from the point where the execution block is in hand.\<close>

definition rewardResponse :: "ExecutionBlockFullResponse \<Rightarrow> response" where
  "rewardResponse execBlock =
     (case hexToBigInt (BaseFeePerGas (Result execBlock)) of
        Panicked \<Rightarrow> HandlerPanic
      | Failed err \<Rightarrow>
          JSON StatusInternalServerError [(''error'', JString ''invalid base fee'')]
      | Parsed baseFee \<Rightarrow>
          (case rewardLoop baseFee 0 (Transactions (Result execBlock)) of
             None \<Rightarrow> HandlerPanic
           | Some totalReward \<Rightarrow>
               JSON StatusOK
                 [(''status'', JString (blockStatus execBlock)),
                  (''reward'', JString (formatInt (rewardInGwei totalReward)))]))"

definition GetBlockReward :: "BlockRewardHandler \<Rightarrow> string \<Rightarrow> response \<times> request list" where
  "GetBlockReward h slotParam =
     (case ParseUint slotParam of
        Inl err \<Rightarrow>
          (JSON StatusBadRequest [(''error'', JString ''invalid slot parameter'')], [])
      | Inr slot \<Rightarrow>
          (case GetHeadSlot (consensusService h) of
             (Inl err, t1) \<Rightarrow>
               (JSON StatusInternalServerError
                  [(''error'', JString ''failed to fetch head slot'')], t1)
           | (Inr headSlot, t1) \<Rightarrow>
               if slot > headSlot
               then (JSON StatusBadRequest
                       [(''error'', JString ''requested slot is in the future'')], t1)
               else
                 (case GetBeaconBlockBySlot (consensusService h) slot of
                    (Inl err, t2) \<Rightarrow>
                      if err = ''block not found''
                      then (JSON StatusNotFound
                              [(''error'', JString ''slot not found/missed'')], t1 @ t2)
                      else (JSON StatusInternalServerError
                              [(''error'', JString ''failed to get beacon block'')], t1 @ t2)
                  | (Inr beaconBlock, t2) \<Rightarrow>
                      (let blockNumberDecimal =
                             payload_BlockNumber
                               (ExecutionPayload (Body (Message (Data beaconBlock))))
                       in if blockNumberDecimal = []
                          then (JSON StatusNotFound
                                  [(''error'', JString ''no execution payload for this slot'')],
                                t1 @ t2)
                          else
                            (case ParseUint blockNumberDecimal of
                               Inl err \<Rightarrow>
                                 (JSON StatusInternalServerError
                                    [(''error'', JString ''invalid block number format'')],
                                  t1 @ t2)
                             | Inr blockNumberInt \<Rightarrow>
                                 (let blockNumberHex = ''0x'' @ formatHex (unat blockNumberInt)
                                  in case GetExecutionBlockByNumber (executionService h)
                                            blockNumberHex of
                                       (Inl err, t3) \<Rightarrow>
                                         (JSON StatusInternalServerError
                                            [(''error'',
                                              JString ''failed to get execution block'')],
                                          t1 @ t2 @ t3)
                                     | (Inr execBlock, t3) \<Rightarrow>
                                         (rewardResponse execBlock, t1 @ t2 @ t3)))))))"

definition GetSyncDuties :: "BlockRewardHandler \<Rightarrow> string \<Rightarrow> response \<times> request list" where
  "GetSyncDuties h slotParam =
     (case ParseUint slotParam of
        Inl err \<Rightarrow>
          (JSON StatusBadRequest [(''error'', JString ''invalid slot parameter'')], [])
      | Inr slot \<Rightarrow>
          (case GetHeadSlot (consensusService h) of
             (Inl err, t1) \<Rightarrow>
               (JSON StatusInternalServerError
                  [(''error'', JString ''failed to fetch head slot'')], t1)
           | (Inr headSlot, t1) \<Rightarrow>
               if slot > headSlot
               then (JSON StatusBadRequest
                       [(''error'', JString ''requested slot is too far in the future'')], t1)
               else
                 (case GetSyncCommitteeDuties (consensusService h) slot of
                    (Inl err, t2) \<Rightarrow>
                      if err = ''sync committee duties not found for this slot''
                      then (JSON StatusNotFound
                              [(''error'', JString ''sync committee duties not found'')],
                            t1 @ t2)
                      else (JSON StatusInternalServerError
                              [(''error'', JString ''failed to get sync committee duties'')],
                            t1 @ t2)
                  | (Inr validators, t2) \<Rightarrow>
                      (JSON StatusOK [(''validators'', JStrings validators)], t1 @ t2))))"

section \<open>The specification's wording\<close>

text \<open>
  The value a hex field parses to, when it does; the transactions the specification
  counts (gasPrice and gas both parse, gasPrice strictly above the base fee), what each
  contributes, and the sum it gives for the total in wei.
\<close>

definition parsedValue :: "string \<Rightarrow> int option" where
  "parsedValue s =
     (case hexToBigInt s of Parsed v \<Rightarrow> Some v | Failed err \<Rightarrow> None | Panicked \<Rightarrow> None)"

definition spec_included :: "int \<Rightarrow> ExecutionBlockTx \<Rightarrow> bool" where
  "spec_included baseFee tx =
     (case (parsedValue (GasPrice tx), parsedValue (Gas tx)) of
        (Some gasPrice, Some gas) \<Rightarrow> baseFee < gasPrice
      | _ \<Rightarrow> False)"

definition spec_contribution :: "int \<Rightarrow> ExecutionBlockTx \<Rightarrow> int" where
  "spec_contribution baseFee tx =
     (case (parsedValue (GasPrice tx), parsedValue (Gas tx)) of
        (Some gasPrice, Some gas) \<Rightarrow> (gasPrice - baseFee) * gas
      | _ \<Rightarrow> 0)"

definition spec_totalRewardWei :: "int \<Rightarrow> ExecutionBlockTx list \<Rightarrow> int" where
  "spec_totalRewardWei baseFee txs =
     sum_list (map (spec_contribution baseFee) (filter (spec_included baseFee) txs))"

text \<open>
  The bytes that an extra-data hex text encodes (the \<open>0x\<close> prefix, then two hex digits
  for each byte): the specification's "decoded extra-data". The handlers never decode
  the field; this is only what the specification's wording refers to.
\<close>

fun hexPairs :: "string \<Rightarrow> nat list option" where
  "hexPairs [] = Some []"
| "hexPairs [a] = None"
| "hexPairs (a # b # r) =
     (if digitVal a < 16 \<and> digitVal b < 16
      then map_option ((#) (digitVal a * 16 + digitVal b)) (hexPairs r)
      else None)"

definition spec_decodedExtraData :: "string \<Rightarrow> nat list option" where
  "spec_decodedExtraData s = (if take 2 s = ''0x'' then hexPairs (drop 2 s) else None)"

text \<open>The literals \<open>SetString\<close> accepts in base 16, and their value.\<close>

definition isHexDigit :: "char \<Rightarrow> bool" where
  "isHexDigit c = (digitVal c < 16)"

definition digitsValue :: "nat \<Rightarrow> string \<Rightarrow> nat" where
  "digitsValue b ds = foldl (\<lambda>a c. a * b + digitVal c) 0 ds"

section \<open>Sample inputs\<close>

definition emptyTx :: ExecutionBlockTx where
  "emptyTx =
     \<lparr>BlockHash = [], BlockNumber = [], From = [], Gas = [], GasPrice = [], Hash = [],
      Input = [], Nonce = [], To = [], TransactionIndex = [], Value = [], Type = []\<rparr>"

definition mkTx :: "string \<Rightarrow> string \<Rightarrow> ExecutionBlockTx" where
  "mkTx gasPrice gas = emptyTx\<lparr>GasPrice := gasPrice, Gas := gas\<rparr>"

definition mkBlock ::
    "string \<Rightarrow> string \<Rightarrow> string \<Rightarrow> ExecutionBlockTx list \<Rightarrow> ExecutionBlockFullResponse" where
  "mkBlock number baseFee extraData txs =
     \<lparr>Result = \<lparr>Number = number, BaseFeePerGas = baseFee, ExtraData = extraData,
                 Transactions = txs\<rparr>\<rparr>"

text \<open>
  A node whose head is at \<open>headSlot\<close>, whose beacon blocks all carry the execution block
  number \<open>blockNumber\<close>, and whose execution layer answers every call with \<open>execBlock\<close>.
\<close>

definition sampleHandler ::
    "string \<Rightarrow> string \<Rightarrow> ExecutionBlockFullResponse \<Rightarrow> BlockRewardHandler" where
  "sampleHandler headSlot blockNumber execBlock =
     \<lparr>consensusService =
        \<lparr>cs_endpoint = ''http://node'',
         cs_headers = (\<lambda>url. Reply 200
           (Inr \<lparr>headers_Data = [\<lparr>Header = \<lparr>header_Message = \<lparr>Slot = headSlot\<rparr>\<rparr>\<rparr>]\<rparr>)),
         cs_blocks = (\<lambda>url. Reply 200
           (Inr \<lparr>Version = ''deneb'',
                 Data = \<lparr>Message = \<lparr>Body = \<lparr>ExecutionPayload =
                   \<lparr>payload_BlockNumber = blockNumber, payload_FeeRecipient = [],
                    payload_ExtraData = [], payload_BaseFeePerGas = ''7'',
                    payload_GasUsed = ''0''\<rparr>\<rparr>\<rparr>\<rparr>\<rparr>)),
         cs_committees = (\<lambda>url. Reply 200
           (Inr \<lparr>ExecutionOptimistic = False, Finalized = True,
                 sync_Data = \<lparr>Validators = [''11'', ''22'']\<rparr>\<rparr>))\<rparr>,
      executionService =
        \<lparr>es_endpoint = ''http://node'',
         es_post = (\<lambda>url req. Reply 200 (Inr execBlock))\<rparr>\<rparr>"

text \<open>
  A block with base fee 7 and four transactions: one above the base fee (gasPrice 10,
  gas 21000), one at it, one below it, one whose gasPrice does not parse. Only the first
  counts: 3 * 21000 = 63000 wei.
\<close>

definition sampleTxs :: "ExecutionBlockTx list" where
  "sampleTxs = [mkTx ''0xa'' ''0x5208'', mkTx ''0x7'' ''0x5208'', mkTx ''0x5'' ''0x5208'',
                mkTx ''10'' ''0x5208'']"

text \<open>The same node, except that it has no beacon block for any slot.\<close>

definition noBlocksHandler :: BlockRewardHandler where
  "noBlocksHandler =
     (sampleHandler ''100'' ''7'' (mkBlock [] [] [] []))
       \<lparr>consensusService :=
          (consensusService (sampleHandler ''100'' ''7'' (mkBlock [] [] [] [])))
            \<lparr>cs_blocks := (\<lambda>url. Reply 404 (Inl ''''))\<rparr>\<rparr>"

section \<open>Replies and requests the claims name\<close>

definition headersUrl :: "BlockRewardHandler \<Rightarrow> string" where
  "headersUrl h = cs_endpoint (consensusService h) @ ''/eth/v1/beacon/headers''"

definition futureSlotReply :: response where
  "futureSlotReply = JSON StatusBadRequest [(''error'', JString ''requested slot is in the future'')]"

definition tooFarReply :: response where
  "tooFarReply =
     JSON StatusBadRequest [(''error'', JString ''requested slot is too far in the future'')]"

section \<open>Evaluating the definitions on concrete inputs\<close>

lemmas eval_defs =
  ParseUint_def byteOf_def maxUint64_def formatUint_def formatHex_def formatInt_def
  formatBase.simps digitChars_def hexToBigInt_def sliceTo_def sliceFrom_def SetString_def
  scanSign_def digitVal_def MaxBase_def Cmp_def Div_def divider_def rewardInGwei_def
  blockStatus_def rewardResponse_def StatusOK_def StatusBadRequest_def StatusNotFound_def
  StatusInternalServerError_def SLOTS_PER_EPOCH_def GetHeadSlot_def GetBeaconBlockBySlot_def
  syncCommitteesUrl_def GetSyncCommitteeDuties_def GetExecutionBlockByNumber_def
  emptyTx_def mkTx_def mkBlock_def sampleHandler_def parsedValue_def spec_included_def
  spec_contribution_def spec_totalRewardWei_def spec_decodedExtraData_def isHexDigit_def
  digitsValue_def

section \<open>hexToBigInt\<close>

lemma scanDigits_all:
  "\<forall>c\<in>set ds. digitVal c < b \<Longrightarrow>
   scanDigits b acc n ds = (foldl (\<lambda>a c. a * b + digitVal c) acc ds, n + length ds, [])"
  by (induction ds arbitrary: acc n) auto

lemma scanDigits_split:
  "scanDigits b acc n s = (v, cnt, rest) \<Longrightarrow>
   \<exists>ds. s = ds @ rest \<and> (\<forall>c\<in>set ds. digitVal c < b) \<and> cnt = n + length ds
        \<and> v = foldl (\<lambda>a c. a * b + digitVal c) acc ds"
proof (induction s arbitrary: acc n)
  case Nil
  then show ?case by simp
next
  case (Cons ch r)
  show ?case
  proof (cases "digitVal ch \<ge> b")
    case True
    with Cons.prems show ?thesis by auto
  next
    case False
    with Cons.prems have "scanDigits b (acc * b + digitVal ch) (Suc n) r = (v, cnt, rest)"
      by simp
    from Cons.IH [OF this] obtain ds where
      "r = ds @ rest" "\<forall>c\<in>set ds. digitVal c < b" "cnt = Suc n + length ds"
      "v = foldl (\<lambda>a c. a * b + digitVal c) (acc * b + digitVal ch) ds"
      by blast
    with False show ?thesis
      by (intro exI [of _ "ch # ds"]) auto
  qed
qed

lemma sign_not_digit: "digitVal CHR ''-'' = 63" "digitVal CHR ''+'' = 63"
  by (simp_all add: digitVal_def byteOf_def MaxBase_def)

lemma SetString16_Some_iff:
  "(SetString r 16 = Some v) =
   (\<exists>sg ds. r = sg @ ds \<and> (sg = [] \<or> sg = ''+'' \<or> sg = ''-'') \<and> ds \<noteq> []
      \<and> (\<forall>c\<in>set ds. isHexDigit c)
      \<and> v = (if sg = ''-'' then - int (digitsValue 16 ds) else int (digitsValue 16 ds)))"
  (is "?L = ?R")
proof
  assume L: ?L
  then obtain neg r' where sg: "scanSign r = Some (neg, r')"
    by (auto simp: SetString_def split: option.splits)
  obtain w cnt rest where sc: "scanDigits 16 0 0 r' = (w, cnt, rest)"
    by (cases "scanDigits 16 0 0 r'") auto
  from L sg sc have cnt: "cnt \<noteq> 0" and rest: "rest = []"
    and v: "v = (if neg then - int w else int w)"
    by (auto simp: SetString_def split: if_splits)
  from scanDigits_split [OF sc] rest obtain ds where ds: "r' = ds"
    "\<forall>c\<in>set ds. digitVal c < 16" "cnt = length ds" "w = digitsValue 16 ds"
    by (auto simp: digitsValue_def)
  from sg have "r = (if neg then ''-'' else if r \<noteq> [] \<and> hd r = CHR ''+'' then ''+'' else []) @ r'"
    by (auto simp: scanSign_def split: list.splits if_splits)
  with ds cnt v show ?R
    by (intro exI [of _ "if neg then ''-'' else if r \<noteq> [] \<and> hd r = CHR ''+'' then ''+'' else []"]
          exI [of _ ds]) (auto simp: isHexDigit_def)
next
  assume ?R
  then obtain sg ds where r: "r = sg @ ds" and sgc: "sg = [] \<or> sg = ''+'' \<or> sg = ''-''"
    and ne: "ds \<noteq> []" and dig: "\<forall>c\<in>set ds. digitVal c < 16"
    and v: "v = (if sg = ''-'' then - int (digitsValue 16 ds) else int (digitsValue 16 ds))"
    by (auto simp: isHexDigit_def)
  from ne obtain d ds' where dd: "ds = d # ds'" by (cases ds) auto
  with dig have d: "digitVal d < 16" by simp
  then have dne: "d \<noteq> CHR ''-''" "d \<noteq> CHR ''+''"
    using sign_not_digit by auto
  have sc: "scanDigits 16 0 0 ds = (digitsValue 16 ds, length ds, [])"
    using scanDigits_all [OF dig, of 0 0] by (simp add: digitsValue_def)
  from sgc show ?L
  proof (elim disjE)
    assume "sg = []"
    with r dd dne have "scanSign r = Some (False, ds)" by (simp add: scanSign_def)
    with sc ne v \<open>sg = []\<close> show ?L by (simp add: SetString_def)
  next
    assume "sg = ''+''"
    with r have "scanSign r = Some (False, ds)" by (simp add: scanSign_def)
    with sc ne v \<open>sg = ''+''\<close> show ?L by (simp add: SetString_def)
  next
    assume "sg = ''-''"
    with r have "scanSign r = Some (True, ds)" by (simp add: scanSign_def)
    with sc ne v \<open>sg = ''-''\<close> show ?L by (simp add: SetString_def)
  qed
qed

lemma hexToBigInt_Parsed_iff:
  "(hexToBigInt s = Parsed v) =
   (2 < length s \<and> take 2 s = ''0x'' \<and> SetString (drop 2 s) 16 = Some v)"
  by (auto simp: hexToBigInt_def sliceTo_def sliceFrom_def split: option.splits)

lemma hexToBigInt_no_panic: "hexToBigInt s \<noteq> Panicked"
  by (auto simp: hexToBigInt_def sliceTo_def sliceFrom_def split: option.splits)

lemma prefixed_iff: "(2 < length s \<and> take 2 s = ''0x'' \<and> drop 2 s = r) = (s = ''0x'' @ r \<and> r \<noteq> [])"
proof
  assume a: "2 < length s \<and> take 2 s = ''0x'' \<and> drop 2 s = r"
  have "take 2 s @ drop 2 s = s" by (rule append_take_drop_id)
  with a have "''0x'' @ r = s" by metis
  moreover from a have "r \<noteq> []" by auto
  ultimately show "s = ''0x'' @ r \<and> r \<noteq> []" by simp
next
  assume "s = ''0x'' @ r \<and> r \<noteq> []"
  then show "2 < length s \<and> take 2 s = ''0x'' \<and> drop 2 s = r"
    by (cases r) auto
qed

text \<open>
  C10. hexToBigInt never panics. It returns a value exactly for the strings longer than
  two bytes that start with \<open>0x\<close> and whose rest \<open>SetString\<close> accepts in base 16: an
  optional sign, then one or more hex digits in either case; the value is the signed value
  of the digits. Every other string gets an error value; so do \<open>0x\<close> alone, a string
  with the prefix \<open>0X\<close>, and a string without prefix.
\<close>
theorem hexToBigInt_accepts_exactly_prefixed_hex:
  "hexToBigInt s \<noteq> Panicked
   \<and> ((hexToBigInt s = Parsed v) =
        (2 < length s \<and> take 2 s = ''0x'' \<and> SetString (drop 2 s) 16 = Some v))
   \<and> ((hexToBigInt s = Parsed v) =
        (\<exists>sg ds. s = ''0x'' @ sg @ ds \<and> (sg = [] \<or> sg = ''+'' \<or> sg = ''-'') \<and> ds \<noteq> []
           \<and> (\<forall>c\<in>set ds. isHexDigit c)
           \<and> v = (if sg = ''-'' then - int (digitsValue 16 ds) else int (digitsValue 16 ds))))
   \<and> ((\<forall>v. hexToBigInt s \<noteq> Parsed v) = (\<exists>err. hexToBigInt s = Failed err))
   \<and> hexToBigInt ''0x'' = Failed ''invalid hex format''
   \<and> hexToBigInt ''0X1f'' = Failed ''invalid hex format''
   \<and> hexToBigInt ''1f'' = Failed ''invalid hex format''
   \<and> hexToBigInt ''0x1g'' = Failed ''failed to parse hex string''"
proof -
  have A: "hexToBigInt s \<noteq> Panicked" by (rule hexToBigInt_no_panic)
  have B: "(hexToBigInt s = Parsed v) =
        (2 < length s \<and> take 2 s = ''0x'' \<and> SetString (drop 2 s) 16 = Some v)"
    by (rule hexToBigInt_Parsed_iff)
  have C: "(hexToBigInt s = Parsed v) =
        (\<exists>sg ds. s = ''0x'' @ sg @ ds \<and> (sg = [] \<or> sg = ''+'' \<or> sg = ''-'') \<and> ds \<noteq> []
           \<and> (\<forall>c\<in>set ds. isHexDigit c)
           \<and> v = (if sg = ''-'' then - int (digitsValue 16 ds) else int (digitsValue 16 ds)))"
    (is "?L = ?R")
  proof
    assume ?L
    then have p: "2 < length s" "take 2 s = ''0x''" and ss: "SetString (drop 2 s) 16 = Some v"
      by (simp_all add: hexToBigInt_Parsed_iff)
    from p have s: "s = ''0x'' @ drop 2 s"
      using prefixed_iff [of s "drop 2 s"] by simp
    from ss obtain sg ds where "drop 2 s = sg @ ds" "sg = [] \<or> sg = ''+'' \<or> sg = ''-''"
      "ds \<noteq> []" "\<forall>c\<in>set ds. isHexDigit c"
      "v = (if sg = ''-'' then - int (digitsValue 16 ds) else int (digitsValue 16 ds))"
      unfolding SetString16_Some_iff by blast
    with s show ?R by metis
  next
    assume ?R
    then obtain sg ds where s: "s = ''0x'' @ sg @ ds" and rest: "(sg = [] \<or> sg = ''+'' \<or> sg = ''-'')"
      "ds \<noteq> []" "\<forall>c\<in>set ds. isHexDigit c"
      "v = (if sg = ''-'' then - int (digitsValue 16 ds) else int (digitsValue 16 ds))"
      by blast
    from rest have "SetString (sg @ ds) 16 = Some v"
      unfolding SetString16_Some_iff by blast
    moreover from s rest(2) have "2 < length s" "take 2 s = ''0x''" "drop 2 s = sg @ ds"
      by (cases ds; simp)+
    ultimately show ?L by (simp add: hexToBigInt_Parsed_iff)
  qed
  have D: "(\<forall>v. hexToBigInt s \<noteq> Parsed v) = (\<exists>err. hexToBigInt s = Failed err)"
    using A by (cases "hexToBigInt s") auto
  have E: "hexToBigInt ''0x'' = Failed ''invalid hex format''"
    "hexToBigInt ''0X1f'' = Failed ''invalid hex format''"
    "hexToBigInt ''1f'' = Failed ''invalid hex format''"
    "hexToBigInt ''0x1g'' = Failed ''failed to parse hex string''"
    by (simp_all add: eval_defs)
  from A B C D E show ?thesis by blast
qed

theorem hexToBigInt_accepts_exactly_prefixed_hex_witness:
  "isHexDigit CHR ''1'' \<and> isHexDigit CHR ''F'' \<and> hexToBigInt ''0x-1F'' = Parsed (- 31)"
proof -
  have h: "\<forall>c\<in>set ''1F''. isHexDigit c" by (simp add: eval_defs)
  have v: "- 31 = (if ''-'' = ''-'' then - int (digitsValue 16 ''1F'') else int (digitsValue 16 ''1F''))"
    by (simp add: eval_defs)
  have "\<exists>sg ds. ''0x-1F'' = ''0x'' @ sg @ ds \<and> (sg = [] \<or> sg = ''+'' \<or> sg = ''-'') \<and> ds \<noteq> []
           \<and> (\<forall>c\<in>set ds. isHexDigit c)
           \<and> - 31 = (if sg = ''-'' then - int (digitsValue 16 ds) else int (digitsValue 16 ds))"
    using h v by (intro exI [of _ "''-''"] exI [of _ "''1F''"]) simp
  with hexToBigInt_accepts_exactly_prefixed_hex [of "''0x-1F''" "- 31"] h
  show ?thesis by simp
qed

section \<open>The reward loop\<close>

lemma hexToBigInt_cases:
  obtains (parsed) v where "hexToBigInt s = Parsed v" "parsedValue s = Some v"
        | (failed) err where "hexToBigInt s = Failed err" "parsedValue s = None"
  using hexToBigInt_no_panic [of s]
  by (cases "hexToBigInt s") (auto simp: parsedValue_def)

lemma parsedValue_Some_iff: "(parsedValue s = Some v) = (hexToBigInt s = Parsed v)"
  by (cases s rule: hexToBigInt_cases) auto

lemma parsedValue_None_iff: "(parsedValue s = None) = (\<exists>err. hexToBigInt s = Failed err)"
  by (cases s rule: hexToBigInt_cases) auto

lemma spec_included_iff:
  "spec_included baseFee tx =
     (\<exists>gasPrice gas. hexToBigInt (GasPrice tx) = Parsed gasPrice
        \<and> hexToBigInt (Gas tx) = Parsed gas \<and> baseFee < gasPrice)"
  by (auto simp: spec_included_def parsedValue_Some_iff [symmetric] split: option.splits)

lemma spec_contribution_parsed:
  "hexToBigInt (GasPrice tx) = Parsed gasPrice \<Longrightarrow> hexToBigInt (Gas tx) = Parsed gas \<Longrightarrow>
   spec_contribution baseFee tx = (gasPrice - baseFee) * gas"
  by (simp add: spec_contribution_def parsedValue_def)

lemma rewardLoop_step:
  "rewardLoop baseFee acc (tx # txs) =
     rewardLoop baseFee
       (if spec_included baseFee tx then acc + spec_contribution baseFee tx else acc) txs"
proof (cases "GasPrice tx" rule: hexToBigInt_cases)
  case (parsed p)
  show ?thesis
  proof (cases "Gas tx" rule: hexToBigInt_cases)
    case g: (parsed g)
    with parsed show ?thesis
      by (simp add: spec_included_def spec_contribution_def Cmp_def)
  next
    case (failed err)
    with parsed show ?thesis
      by (simp add: spec_included_def spec_contribution_def)
  qed
next
  case (failed err)
  then show ?thesis
    by (simp add: spec_included_def spec_contribution_def)
qed

lemma rewardLoop_sum:
  "rewardLoop baseFee acc txs = Some (acc + spec_totalRewardWei baseFee txs)"
proof (induction txs arbitrary: acc)
  case Nil
  show ?case by (simp add: spec_totalRewardWei_def)
next
  case (Cons tx txs)
  show ?case
    unfolding rewardLoop_step Cons.IH
    by (simp add: spec_totalRewardWei_def)
qed

lemma rewardResponse_parsed:
  "hexToBigInt (BaseFeePerGas (Result b)) = Parsed baseFee \<Longrightarrow>
   rewardResponse b =
     JSON StatusOK
       [(''status'', JString (blockStatus b)),
        (''reward'', JString (formatInt (rewardInGwei
           (spec_totalRewardWei baseFee (Transactions (Result b))))))]"
  by (simp add: rewardResponse_def rewardLoop_sum)

lemma rewardResponse_failed:
  "hexToBigInt (BaseFeePerGas (Result b)) = Failed err \<Longrightarrow>
   rewardResponse b = JSON StatusInternalServerError [(''error'', JString ''invalid base fee'')]"
  by (simp add: rewardResponse_def)

lemma formatInt_0: "formatInt 0 = ''0''"
  by (simp add: formatInt_def formatUint_def formatBase.simps digitChars_def)

lemma rewardInGwei_div: "0 \<le> t \<Longrightarrow> rewardInGwei t = t div 1000000000"
  by (simp add: rewardInGwei_def Div_def divider_def)

lemma rewardInGwei_0: "rewardInGwei 0 = 0"
  by (simp add: rewardInGwei_def Div_def divider_def)

lemma spec_total_nonneg:
  assumes "\<forall>tx\<in>set txs. \<forall>gas. hexToBigInt (Gas tx) = Parsed gas \<longrightarrow> 0 \<le> gas"
  shows "0 \<le> spec_totalRewardWei baseFee txs"
proof -
  have "0 \<le> spec_contribution baseFee tx" if "tx \<in> set txs" "spec_included baseFee tx" for tx
  proof -
    from that(2) obtain p g where pg: "hexToBigInt (GasPrice tx) = Parsed p"
      "hexToBigInt (Gas tx) = Parsed g" "baseFee < p"
      unfolding spec_included_iff by blast
    with assms that(1) have "0 \<le> g" by blast
    with pg show ?thesis by (simp add: spec_contribution_parsed)
  qed
  then show ?thesis
    unfolding spec_totalRewardWei_def by (intro sum_list_nonneg) auto
qed

lemma spec_total_none_included:
  assumes "\<forall>tx\<in>set txs. \<not> spec_included baseFee tx"
  shows "spec_totalRewardWei baseFee txs = 0"
proof -
  from assms have "filter (spec_included baseFee) txs = []"
    by (simp add: filter_empty_conv)
  then show ?thesis by (simp add: spec_totalRewardWei_def)
qed

lemma spec_total_skip:
  "\<not> spec_included baseFee t \<Longrightarrow>
   spec_totalRewardWei baseFee (xs @ t # ys) = spec_totalRewardWei baseFee (xs @ ys)"
  by (simp add: spec_totalRewardWei_def)

section \<open>Claims about the reward\<close>

text \<open>
  C3. When the base fee parses, the total in wei that the loop accumulates is the sum of
  (gasPrice - baseFee) * gas over exactly the transactions whose gasPrice and gas both
  parse and whose gasPrice is strictly above the base fee, and the reply carries that total
  divided into gwei. When no transaction has a parsed gasPrice above the base fee the total
  is 0 and the reward is "0".
\<close>

theorem total_reward_is_sum_over_included:
  assumes "hexToBigInt (BaseFeePerGas (Result b)) = Parsed baseFee"
  shows "rewardLoop baseFee 0 (Transactions (Result b)) =
           Some (\<Sum>tx\<leftarrow>filter (spec_included baseFee) (Transactions (Result b)).
                   spec_contribution baseFee tx)
       \<and> (\<forall>tx. spec_included baseFee tx =
             (\<exists>gasPrice gas. hexToBigInt (GasPrice tx) = Parsed gasPrice
                \<and> hexToBigInt (Gas tx) = Parsed gas \<and> baseFee < gasPrice))
       \<and> (\<forall>tx gasPrice gas. hexToBigInt (GasPrice tx) = Parsed gasPrice
             \<longrightarrow> hexToBigInt (Gas tx) = Parsed gas
             \<longrightarrow> spec_contribution baseFee tx = (gasPrice - baseFee) * gas)
       \<and> rewardResponse b =
           JSON StatusOK
             [(''status'', JString (blockStatus b)),
              (''reward'', JString (formatInt (rewardInGwei
                 (\<Sum>tx\<leftarrow>filter (spec_included baseFee) (Transactions (Result b)).
                    spec_contribution baseFee tx))))]
       \<and> ((\<forall>tx\<in>set (Transactions (Result b)). \<forall>gasPrice.
               hexToBigInt (GasPrice tx) = Parsed gasPrice \<longrightarrow> gasPrice \<le> baseFee)
            \<longrightarrow> rewardLoop baseFee 0 (Transactions (Result b)) = Some 0
              \<and> rewardResponse b =
                  JSON StatusOK
                    [(''status'', JString (blockStatus b)), (''reward'', JString ''0'')])"
proof -
  let ?txs = "Transactions (Result b)"
  have A: "rewardLoop baseFee 0 ?txs = Some (spec_totalRewardWei baseFee ?txs)"
    by (simp add: rewardLoop_sum)
  have B: "rewardResponse b =
           JSON StatusOK
             [(''status'', JString (blockStatus b)),
              (''reward'', JString (formatInt (rewardInGwei (spec_totalRewardWei baseFee ?txs))))]"
    using assms by (rule rewardResponse_parsed)
  have C: "spec_totalRewardWei baseFee ?txs = 0"
    if "\<forall>tx\<in>set ?txs. \<forall>gasPrice.
               hexToBigInt (GasPrice tx) = Parsed gasPrice \<longrightarrow> gasPrice \<le> baseFee"
  proof (rule spec_total_none_included, rule ballI)
    fix tx assume "tx \<in> set ?txs"
    with that show "\<not> spec_included baseFee tx"
      unfolding spec_included_iff by fastforce
  qed
  show ?thesis
  proof (intro conjI allI impI)
    show "rewardLoop baseFee 0 ?txs = Some (\<Sum>tx\<leftarrow>filter (spec_included baseFee) ?txs.
                   spec_contribution baseFee tx)"
      using A by (simp add: spec_totalRewardWei_def)
  next
    fix tx :: ExecutionBlockTx
    show "spec_included baseFee tx =
             (\<exists>gasPrice gas. hexToBigInt (GasPrice tx) = Parsed gasPrice
                \<and> hexToBigInt (Gas tx) = Parsed gas \<and> baseFee < gasPrice)"
      by (rule spec_included_iff)
  next
    fix tx :: ExecutionBlockTx and gasPrice gas
    assume "hexToBigInt (GasPrice tx) = Parsed gasPrice" "hexToBigInt (Gas tx) = Parsed gas"
    then show "spec_contribution baseFee tx = (gasPrice - baseFee) * gas"
      by (rule spec_contribution_parsed)
  next
    show "rewardResponse b =
           JSON StatusOK
             [(''status'', JString (blockStatus b)),
              (''reward'', JString (formatInt (rewardInGwei
                 (\<Sum>tx\<leftarrow>filter (spec_included baseFee) ?txs.
                    spec_contribution baseFee tx))))]"
      using B by (simp add: spec_totalRewardWei_def)
  next
    assume h: "\<forall>tx\<in>set ?txs. \<forall>gasPrice.
               hexToBigInt (GasPrice tx) = Parsed gasPrice \<longrightarrow> gasPrice \<le> baseFee"
    from C [OF h] A show "rewardLoop baseFee 0 ?txs = Some 0" by simp
    from C [OF h] B show "rewardResponse b =
                  JSON StatusOK
                    [(''status'', JString (blockStatus b)), (''reward'', JString ''0'')]"
      by (simp add: rewardInGwei_0 formatInt_0)
  qed
qed

theorem total_reward_is_sum_over_included_witness:
  "hexToBigInt (BaseFeePerGas (Result (mkBlock ''0x10'' ''0x7'' ''0x'' sampleTxs))) = Parsed 7
   \<and> rewardLoop 7 0 sampleTxs = Some 63000
   \<and> rewardLoop 7 0 (tl sampleTxs) = Some 0
   \<and> rewardResponse (mkBlock ''0x10'' ''0x7'' ''0x'' (tl sampleTxs)) =
       JSON StatusOK [(''status'', JString ''vanilla''), (''reward'', JString ''0'')]"
proof -
  have h1: "hexToBigInt (BaseFeePerGas (Result (mkBlock ''0x10'' ''0x7'' ''0x'' sampleTxs))) = Parsed 7"
    by (simp add: eval_defs)
  have h2: "hexToBigInt (BaseFeePerGas (Result (mkBlock ''0x10'' ''0x7'' ''0x'' (tl sampleTxs)))) = Parsed 7"
    by (simp add: eval_defs)
  have s: "(\<Sum>tx\<leftarrow>filter (spec_included 7) sampleTxs. spec_contribution 7 tx) = 63000"
    by (simp add: sampleTxs_def eval_defs)
  have t1: "Transactions (Result (mkBlock ''0x10'' ''0x7'' ''0x'' sampleTxs)) = sampleTxs"
    and t2: "Transactions (Result (mkBlock ''0x10'' ''0x7'' ''0x'' (tl sampleTxs))) = tl sampleTxs"
    by (simp_all add: mkBlock_def)
  have le: "\<forall>tx\<in>set (tl sampleTxs).
       \<forall>gasPrice. hexToBigInt (GasPrice tx) = Parsed gasPrice \<longrightarrow> gasPrice \<le> 7"
    by (simp add: sampleTxs_def eval_defs)
  have st: "blockStatus (mkBlock ''0x10'' ''0x7'' ''0x'' (tl sampleTxs)) = ''vanilla''"
    by (simp add: eval_defs)
  note th1 = total_reward_is_sum_over_included [OF h1, unfolded t1]
  note th2 = total_reward_is_sum_over_included [OF h2, unfolded t2]
  from th1 have "rewardLoop 7 0 sampleTxs =
      Some (\<Sum>tx\<leftarrow>filter (spec_included 7) sampleTxs. spec_contribution 7 tx)"
    by blast
  with s have a: "rewardLoop 7 0 sampleTxs = Some 63000" by simp
  from th2 le have bc: "rewardLoop 7 0 (tl sampleTxs) = Some 0
     \<and> rewardResponse (mkBlock ''0x10'' ''0x7'' ''0x'' (tl sampleTxs)) =
        JSON StatusOK [(''status'', JString (blockStatus (mkBlock ''0x10'' ''0x7'' ''0x'' (tl sampleTxs)))),
                       (''reward'', JString ''0'')]"
    by blast
  then have b: "rewardLoop 7 0 (tl sampleTxs) = Some 0"
    and c: "rewardResponse (mkBlock ''0x10'' ''0x7'' ''0x'' (tl sampleTxs)) =
       JSON StatusOK [(''status'', JString ''vanilla''), (''reward'', JString ''0'')]"
    using st by simp_all
  from h1 a b c show ?thesis by simp
qed

text \<open>
  C4. When the base fee parses, a transaction whose gasPrice or gas does not parse does
  not make the computation fail and adds nothing: the loop and the reply over a list
  holding such a transaction are those over the list without it, and the reply is a 200.
\<close>

theorem unparsable_transaction_is_skipped:
  assumes "hexToBigInt (BaseFeePerGas (Result b)) = Parsed baseFee"
      and "hexToBigInt (GasPrice t) = Failed err \<or> hexToBigInt (Gas t) = Failed err"
  shows "rewardLoop baseFee acc (xs @ t # ys) = rewardLoop baseFee acc (xs @ ys)
       \<and> rewardResponse (b\<lparr>Result := (Result b)\<lparr>Transactions := xs @ t # ys\<rparr>\<rparr>) =
         rewardResponse (b\<lparr>Result := (Result b)\<lparr>Transactions := xs @ ys\<rparr>\<rparr>)
       \<and> (\<exists>reward. rewardResponse (b\<lparr>Result := (Result b)\<lparr>Transactions := xs @ t # ys\<rparr>\<rparr>) =
            JSON StatusOK [(''status'', JString (blockStatus b)), (''reward'', JString reward)])"
proof -
  from assms(2) have ni: "\<not> spec_included baseFee t"
    unfolding spec_included_iff by auto
  then have eq: "spec_totalRewardWei baseFee (xs @ t # ys) = spec_totalRewardWei baseFee (xs @ ys)"
    by (rule spec_total_skip)
  have bf: "hexToBigInt (BaseFeePerGas (Result (b\<lparr>Result := (Result b)\<lparr>Transactions := zs\<rparr>\<rparr>)))
              = Parsed baseFee" for zs
    using assms(1) by simp
  have st: "blockStatus (b\<lparr>Result := (Result b)\<lparr>Transactions := zs\<rparr>\<rparr>) = blockStatus b" for zs
    by (simp add: blockStatus_def)
  have A: "rewardLoop baseFee acc (xs @ t # ys) = rewardLoop baseFee acc (xs @ ys)"
    by (simp add: rewardLoop_sum eq)
  have B: "rewardResponse (b\<lparr>Result := (Result b)\<lparr>Transactions := xs @ t # ys\<rparr>\<rparr>) =
         rewardResponse (b\<lparr>Result := (Result b)\<lparr>Transactions := xs @ ys\<rparr>\<rparr>)"
    by (simp add: rewardResponse_parsed [OF bf] st eq)
  have C: "\<exists>reward. rewardResponse (b\<lparr>Result := (Result b)\<lparr>Transactions := xs @ t # ys\<rparr>\<rparr>) =
            JSON StatusOK [(''status'', JString (blockStatus b)), (''reward'', JString reward)]"
    by (simp add: rewardResponse_parsed [OF bf] st)
  from A B C show ?thesis by blast
qed

theorem unparsable_transaction_is_skipped_witness:
  "hexToBigInt (BaseFeePerGas (Result (mkBlock ''0x10'' ''0x7'' ''0x'' []))) = Parsed 7
   \<and> hexToBigInt (GasPrice (mkTx ''10'' ''0x5208'')) = Failed ''invalid hex format''
   \<and> rewardLoop 7 0 ([mkTx ''0xa'' ''0x5208''] @ mkTx ''10'' ''0x5208'' # [mkTx ''0x9'' ''0x1''])
       = rewardLoop 7 0 ([mkTx ''0xa'' ''0x5208''] @ [mkTx ''0x9'' ''0x1''])
   \<and> rewardLoop 7 0 ([mkTx ''0xa'' ''0x5208''] @ [mkTx ''0x9'' ''0x1'']) = Some 63002"
proof -
  have h1: "hexToBigInt (BaseFeePerGas (Result (mkBlock ''0x10'' ''0x7'' ''0x'' []))) = Parsed 7"
    by (simp add: eval_defs)
  have h2: "hexToBigInt (GasPrice (mkTx ''10'' ''0x5208'')) = Failed ''invalid hex format''"
    by (simp add: eval_defs)
  then have h2': "hexToBigInt (GasPrice (mkTx ''10'' ''0x5208'')) = Failed ''invalid hex format''
     \<or> hexToBigInt (Gas (mkTx ''10'' ''0x5208'')) = Failed ''invalid hex format''"
    by (rule disjI1)
  have v: "rewardLoop 7 0 ([mkTx ''0xa'' ''0x5208''] @ [mkTx ''0x9'' ''0x1'']) = Some 63002"
    by (simp add: eval_defs)
  from unparsable_transaction_is_skipped [OF h1 h2', of 0 "[mkTx ''0xa'' ''0x5208'']" "[mkTx ''0x9'' ''0x1'']"]
  have "rewardLoop 7 0 ([mkTx ''0xa'' ''0x5208''] @ mkTx ''10'' ''0x5208'' # [mkTx ''0x9'' ''0x1''])
       = rewardLoop 7 0 ([mkTx ''0xa'' ''0x5208''] @ [mkTx ''0x9'' ''0x1''])"
    by (rule conjunct1)
  with h1 h2 v show ?thesis by blast
qed

text \<open>
  C5. For a total of at least 0 wei the reward in gwei is the total divided by
  1000000000 with the remainder dropped: the largest whole number of gwei that does not
  exceed the total. 1999999999 wei is reported as "1".
\<close>

theorem gwei_conversion_truncates:
  assumes "0 \<le> totalReward"
  shows "rewardInGwei totalReward = totalReward div 1000000000
       \<and> 0 \<le> rewardInGwei totalReward
       \<and> rewardInGwei totalReward * 1000000000 \<le> totalReward
       \<and> totalReward < (rewardInGwei totalReward + 1) * 1000000000
       \<and> formatInt (rewardInGwei 1999999999) = ''1''
       \<and> rewardResponse (mkBlock ''0x10'' ''0x0'' ''0x'' [mkTx ''0x773593ff'' ''0x1'']) =
           JSON StatusOK [(''status'', JString ''vanilla''), (''reward'', JString ''1'')]"
proof -
  have A: "rewardInGwei totalReward = totalReward div 1000000000"
    using assms by (rule rewardInGwei_div)
  have B: "0 \<le> totalReward div 1000000000"
    using assms by simp
  have C: "totalReward div 1000000000 * 1000000000 \<le> totalReward"
    by simp
  have D: "totalReward < (totalReward div 1000000000 + 1) * 1000000000"
  proof -
    have "totalReward mod 1000000000 < 1000000000" by simp
    moreover have "totalReward = totalReward div 1000000000 * 1000000000 + totalReward mod 1000000000"
      by simp
    ultimately show ?thesis by (simp add: algebra_simps)
  qed
  have E: "formatInt (rewardInGwei 1999999999) = ''1''"
    by (simp add: eval_defs)
  have F: "rewardResponse (mkBlock ''0x10'' ''0x0'' ''0x'' [mkTx ''0x773593ff'' ''0x1'']) =
           JSON StatusOK [(''status'', JString ''vanilla''), (''reward'', JString ''1'')]"
    by (simp add: eval_defs)
  from A B C D E F show ?thesis by simp
qed

theorem gwei_conversion_truncates_witness:
  "(0::int) \<le> 1999999999 \<and> rewardInGwei 1999999999 = 1
   \<and> rewardInGwei 1999999999 * 1000000000 \<le> 1999999999
   \<and> 1999999999 < (rewardInGwei 1999999999 + 1) * 1000000000"
proof -
  have h: "(0::int) \<le> 1999999999" by simp
  from gwei_conversion_truncates [OF h] show ?thesis by simp
qed

text \<open>
  C2, as stated, fails: \<open>SetString\<close> accepts a sign, so a gas field can parse to a
  negative amount, and a transaction above the base fee then contributes a negative
  product. With base fee 0, gasPrice 1 and gas \<open>0x-77359400\<close> (-2000000000) the reward
  is "-2".
\<close>

theorem reward_negative_counterexample:
  "hexToBigInt ''0x-77359400'' = Parsed (- 2000000000)
   \<and> rewardLoop 0 0 [mkTx ''0x1'' ''0x-77359400''] = Some (- 2000000000)
   \<and> rewardInGwei (- 2000000000) = - 2
   \<and> \<not> 0 \<le> rewardInGwei (- 2000000000)
   \<and> rewardResponse (mkBlock ''0x10'' ''0x0'' ''0x'' [mkTx ''0x1'' ''0x-77359400'']) =
       JSON StatusOK [(''status'', JString ''vanilla''), (''reward'', JString ''-2'')]"
  by (simp add: eval_defs)

text \<open>
  C2, amended. Whatever the base-fee string, the handler either answers 500 "invalid base
  fee" (the base fee does not parse, and no reward is returned) or answers 200; in a 200
  the reward is at least 0 whenever no transaction's gas field parses to a negative
  amount.
\<close>

theorem reward_nonneg_when_gas_nonneg:
  assumes "\<forall>tx\<in>set (Transactions (Result b)). \<forall>gas.
             hexToBigInt (Gas tx) = Parsed gas \<longrightarrow> 0 \<le> gas"
  shows "rewardResponse b =
           JSON StatusInternalServerError [(''error'', JString ''invalid base fee'')]
       \<or> (\<exists>r. 0 \<le> r
             \<and> rewardResponse b =
                 JSON StatusOK
                   [(''status'', JString (blockStatus b)),
                    (''reward'', JString (formatInt r))])"
proof (cases "BaseFeePerGas (Result b)" rule: hexToBigInt_cases)
  case (parsed baseFee)
  let ?t = "spec_totalRewardWei baseFee (Transactions (Result b))"
  from assms have t: "0 \<le> ?t" by (rule spec_total_nonneg)
  then have "0 \<le> rewardInGwei ?t"
    by (simp add: rewardInGwei_div)
  with rewardResponse_parsed [OF parsed(1)] show ?thesis by blast
next
  case (failed err)
  then show ?thesis by (simp add: rewardResponse_failed)
qed

theorem reward_nonneg_when_gas_nonneg_witness:
  "0 \<le> (21000::int) \<and> hexToBigInt ''0x5208'' = Parsed 21000
   \<and> rewardResponse (mkBlock ''0x10'' ''0x7'' ''0x'' sampleTxs) =
       JSON StatusOK [(''status'', JString ''vanilla''), (''reward'', JString ''0'')]
   \<and> (\<exists>r. 0 \<le> r \<and> ''0'' = formatInt r)"
proof -
  have h: "\<forall>tx\<in>set (Transactions (Result (mkBlock ''0x10'' ''0x7'' ''0x'' sampleTxs))). \<forall>gas.
             hexToBigInt (Gas tx) = Parsed gas \<longrightarrow> 0 \<le> gas"
    by (simp add: sampleTxs_def eval_defs)
  have g: "hexToBigInt ''0x5208'' = Parsed 21000" by (simp add: eval_defs)
  have v: "rewardResponse (mkBlock ''0x10'' ''0x7'' ''0x'' sampleTxs) =
       JSON StatusOK [(''status'', JString ''vanilla''), (''reward'', JString ''0'')]"
    by (simp add: sampleTxs_def eval_defs)
  from reward_nonneg_when_gas_nonneg [OF h] v
  have "\<exists>r. 0 \<le> r \<and> ''0'' = formatInt r"
    by (auto simp: StatusOK_def StatusInternalServerError_def)
  with g v show ?thesis by simp
qed

text \<open>
  C6, as stated, fails: the status is read off the extra-data field alone, so a block
  without transactions whose extra-data text is longer than 20 bytes is "relay".
\<close>

theorem empty_block_relay_counterexample:
  "Transactions (Result (mkBlock ''0x10'' ''0x7'' ''0x496c6c756d696e61746520446d6f63726174'' [])) = []
   \<and> hexToBigInt (BaseFeePerGas
        (Result (mkBlock ''0x10'' ''0x7'' ''0x496c6c756d696e61746520446d6f63726174'' []))) = Parsed 7
   \<and> rewardResponse (mkBlock ''0x10'' ''0x7'' ''0x496c6c756d696e61746520446d6f63726174'' []) =
       JSON StatusOK [(''status'', JString ''relay''), (''reward'', JString ''0'')]
   \<and> ''relay'' \<noteq> ''vanilla''"
  by (simp add: eval_defs)

text \<open>
  C6, amended. For an execution block without transactions whose base fee parses, the
  reward is "0"; the status is "vanilla" when the extra-data text has at most 20 bytes, and
  "relay" when it has more.
\<close>

theorem empty_block_reward_zero:
  assumes "hexToBigInt (BaseFeePerGas (Result b)) = Parsed baseFee"
      and "Transactions (Result b) = []"
  shows "rewardResponse b =
           JSON StatusOK
             [(''status'',
               JString (if length (ExtraData (Result b)) \<le> 20 then ''vanilla'' else ''relay'')),
              (''reward'', JString ''0'')]"
proof -
  have "spec_totalRewardWei baseFee [] = 0" by (simp add: spec_totalRewardWei_def)
  with rewardResponse_parsed [OF assms(1)] assms(2) show ?thesis
    by (simp add: rewardInGwei_0 formatInt_0 blockStatus_def)
qed

theorem empty_block_reward_zero_witness:
  "hexToBigInt (BaseFeePerGas (Result (mkBlock ''0x10'' ''0x7'' ''0x4e65746865'' []))) = Parsed 7
   \<and> Transactions (Result (mkBlock ''0x10'' ''0x7'' ''0x4e65746865'' [])) = []
   \<and> rewardResponse (mkBlock ''0x10'' ''0x7'' ''0x4e65746865'' []) =
       JSON StatusOK [(''status'', JString ''vanilla''), (''reward'', JString ''0'')]"
proof -
  have h1: "hexToBigInt (BaseFeePerGas (Result (mkBlock ''0x10'' ''0x7'' ''0x4e65746865'' []))) = Parsed 7"
    by (simp add: eval_defs)
  have h2: "Transactions (Result (mkBlock ''0x10'' ''0x7'' ''0x4e65746865'' [])) = []"
    by (simp add: mkBlock_def)
  have l: "length (ExtraData (Result (mkBlock ''0x10'' ''0x7'' ''0x4e65746865'' []))) \<le> 20"
    by (simp add: mkBlock_def)
  from empty_block_reward_zero [OF h1 h2] l
  have "rewardResponse (mkBlock ''0x10'' ''0x7'' ''0x4e65746865'' []) =
       JSON StatusOK [(''status'', JString ''vanilla''), (''reward'', JString ''0'')]"
    by simp
  with h1 h2 show ?thesis by blast
qed

lemma hexPairs_length: "hexPairs s = Some bytes \<Longrightarrow> length s = 2 * length bytes"
proof (induction s arbitrary: bytes rule: hexPairs.induct)
  case 1
  then show ?case by simp
next
  case (2 a)
  then show ?case by simp
next
  case (3 a b r)
  then show ?case by (auto split: if_splits)
qed

lemma spec_decodedExtraData_length:
  assumes "spec_decodedExtraData s = Some bytes"
  shows "length s = 2 + 2 * length bytes"
proof -
  from assms have p: "take 2 s = ''0x''" and h: "hexPairs (drop 2 s) = Some bytes"
    by (auto simp: spec_decodedExtraData_def split: if_splits)
  from p have "2 \<le> length s" by (cases s; cases "tl s") auto
  moreover from h have "length s - 2 = 2 * length bytes"
    using hexPairs_length by fastforce
  ultimately show ?thesis by simp
qed

text \<open>
  C1, as stated, fails: the handler never decodes the extra-data field, it compares the
  length of the hex text it received (the \<open>0x\<close> prefix and two characters for each byte)
  with 20. An extra-data of exactly 20 bytes is a text of 42 bytes, and the status is
  "relay".
\<close>

theorem status_decoded_20_bytes_counterexample:
  "map_option length
     (spec_decodedExtraData ''0x0102030405060708090a0b0c0d0e0f1011121314'') = Some 20
   \<and> length ''0x0102030405060708090a0b0c0d0e0f1011121314'' = 42
   \<and> rewardResponse (mkBlock ''0x10'' ''0x7'' ''0x0102030405060708090a0b0c0d0e0f1011121314'' []) =
       JSON StatusOK [(''status'', JString ''relay''), (''reward'', JString ''0'')]
   \<and> ''relay'' \<noteq> ''vanilla''"
  by (simp add: eval_defs)

text \<open>
  C1, amended. For every execution block whose base fee parses (otherwise no status is
  computed), the status in the reply is "relay" if and only if the extra-data field as
  received, the hex text with its prefix, is longer than 20 bytes, and "vanilla"
  otherwise; a text of exactly 20 bytes gives "vanilla". When the text is well-formed hex
  this is: "relay" if and only if it encodes more than 9 bytes.
\<close>

theorem status_by_extra_data_text_length:
  assumes "hexToBigInt (BaseFeePerGas (Result b)) = Parsed baseFee"
  shows "(\<exists>reward. rewardResponse b =
            JSON StatusOK [(''status'', JString (blockStatus b)), (''reward'', JString reward)])
       \<and> (blockStatus b = ''relay'') = (20 < length (ExtraData (Result b)))
       \<and> (blockStatus b = ''vanilla'') = (length (ExtraData (Result b)) \<le> 20)
       \<and> (length (ExtraData (Result b)) = 20 \<longrightarrow> blockStatus b = ''vanilla'')
       \<and> (\<forall>bytes. spec_decodedExtraData (ExtraData (Result b)) = Some bytes \<longrightarrow>
            (blockStatus b = ''relay'') = (9 < length bytes))"
proof -
  have A: "\<exists>reward. rewardResponse b =
            JSON StatusOK [(''status'', JString (blockStatus b)), (''reward'', JString reward)]"
    using rewardResponse_parsed [OF assms] by blast
  have B: "(blockStatus b = ''relay'') = (20 < length (ExtraData (Result b)))"
    and C: "(blockStatus b = ''vanilla'') = (length (ExtraData (Result b)) \<le> 20)"
    by (auto simp: blockStatus_def)
  have D: "(blockStatus b = ''relay'') = (9 < length bytes)"
    if "spec_decodedExtraData (ExtraData (Result b)) = Some bytes" for bytes
    using spec_decodedExtraData_length [OF that] B by auto
  from A B C D show ?thesis by auto
qed

theorem status_by_extra_data_text_length_witness:
  "hexToBigInt (BaseFeePerGas (Result (mkBlock ''0x10'' ''0x7'' ''0x0102030405060708090a'' []))) = Parsed 7
   \<and> spec_decodedExtraData ''0x0102030405060708090a'' = Some [1, 2, 3, 4, 5, 6, 7, 8, 9, 10]
   \<and> blockStatus (mkBlock ''0x10'' ''0x7'' ''0x0102030405060708090a'' []) = ''relay''
   \<and> blockStatus (mkBlock ''0x10'' ''0x7'' ''0x010203040506070809'' []) = ''vanilla''"
proof -
  have h1: "hexToBigInt (BaseFeePerGas (Result (mkBlock ''0x10'' ''0x7'' ''0x0102030405060708090a'' []))) = Parsed 7"
    by (simp add: eval_defs)
  have h2: "hexToBigInt (BaseFeePerGas (Result (mkBlock ''0x10'' ''0x7'' ''0x010203040506070809'' []))) = Parsed 7"
    by (simp add: eval_defs)
  have d: "spec_decodedExtraData (ExtraData (Result (mkBlock ''0x10'' ''0x7'' ''0x0102030405060708090a'' [])))
      = Some [1, 2, 3, 4, 5, 6, 7, 8, 9, 10]"
    by (simp add: eval_defs)
  have e: "ExtraData (Result (mkBlock ''0x10'' ''0x7'' ''0x0102030405060708090a'' [])) = ''0x0102030405060708090a''"
    by (simp add: mkBlock_def)
  have l: "length (ExtraData (Result (mkBlock ''0x10'' ''0x7'' ''0x010203040506070809'' []))) = 20"
    by (simp add: mkBlock_def)
  from status_by_extra_data_text_length [OF h1] d
  have r: "blockStatus (mkBlock ''0x10'' ''0x7'' ''0x0102030405060708090a'' []) = ''relay''"
    by fastforce
  from status_by_extra_data_text_length [OF h2] l
  have v: "blockStatus (mkBlock ''0x10'' ''0x7'' ''0x010203040506070809'' []) = ''vanilla''"
    by blast
  from h1 d e r v show ?thesis by simp
qed

section \<open>Orchestration\<close>

lemma GetHeadSlot_trace: "snd (GetHeadSlot c) = [GET (cs_endpoint c @ ''/eth/v1/beacon/headers'')]"
  by (simp add: GetHeadSlot_def Let_def)

lemma status_codes_distinct:
  "StatusOK \<noteq> StatusBadRequest" "StatusInternalServerError \<noteq> StatusBadRequest"
  "StatusNotFound \<noteq> StatusBadRequest"
  by (simp_all add: StatusOK_def StatusBadRequest_def StatusInternalServerError_def
        StatusNotFound_def)

lemma rewardResponse_not_400: "rewardResponse b \<noteq> JSON StatusBadRequest body"
  by (cases "BaseFeePerGas (Result b)" rule: hexToBigInt_cases)
     (simp_all add: rewardResponse_parsed rewardResponse_failed status_codes_distinct)

lemma GetBlockReward_future:
  assumes "ParseUint slotParam = Inr slot"
      and "fst (GetHeadSlot (consensusService h)) = Inr headSlot"
      and "headSlot < slot"
  shows "GetBlockReward h slotParam = (futureSlotReply, [GET (headersUrl h)])"
proof -
  from assms(2) GetHeadSlot_trace [of "consensusService h"]
  have "GetHeadSlot (consensusService h) = (Inr headSlot, [GET (headersUrl h)])"
    by (cases "GetHeadSlot (consensusService h)") (simp add: headersUrl_def)
  with assms(1,3) show ?thesis
    by (simp add: GetBlockReward_def futureSlotReply_def)
qed

lemma GetSyncDuties_future:
  assumes "ParseUint slotParam = Inr slot"
      and "fst (GetHeadSlot (consensusService h)) = Inr headSlot"
      and "headSlot < slot"
  shows "GetSyncDuties h slotParam = (tooFarReply, [GET (headersUrl h)])"
proof -
  from assms(2) GetHeadSlot_trace [of "consensusService h"]
  have "GetHeadSlot (consensusService h) = (Inr headSlot, [GET (headersUrl h)])"
    by (cases "GetHeadSlot (consensusService h)") (simp add: headersUrl_def)
  with assms(1,3) show ?thesis
    by (simp add: GetSyncDuties_def tooFarReply_def)
qed

lemma GetBlockReward_future_only:
  assumes "fst (GetBlockReward h slotParam) = futureSlotReply"
  shows "\<exists>slot headSlot. ParseUint slotParam = Inr slot
           \<and> fst (GetHeadSlot (consensusService h)) = Inr headSlot \<and> headSlot < slot"
proof (cases "ParseUint slotParam")
  case (Inl err)
  with assms show ?thesis
    by (simp add: GetBlockReward_def futureSlotReply_def)
next
  case (Inr slot)
  obtain r1 t1 where g: "GetHeadSlot (consensusService h) = (r1, t1)"
    by (cases "GetHeadSlot (consensusService h)") auto
  show ?thesis
  proof (cases r1)
    case (Inl err)
    with assms Inr g show ?thesis
      by (simp add: GetBlockReward_def futureSlotReply_def status_codes_distinct)
  next
    case r: (Inr headSlot)
    show ?thesis
    proof (cases "headSlot < slot")
      case True
      with Inr g r show ?thesis by simp
    next
      case False
      with assms Inr g r have False
        by (auto simp: GetBlockReward_def futureSlotReply_def status_codes_distinct
              rewardResponse_not_400 Let_def
            split: prod.splits sum.splits if_splits)
      then show ?thesis ..
    qed
  qed
qed

lemma GetSyncDuties_future_only:
  assumes "fst (GetSyncDuties h slotParam) = tooFarReply"
  shows "\<exists>slot headSlot. ParseUint slotParam = Inr slot
           \<and> fst (GetHeadSlot (consensusService h)) = Inr headSlot \<and> headSlot < slot"
proof (cases "ParseUint slotParam")
  case (Inl err)
  with assms show ?thesis
    by (simp add: GetSyncDuties_def tooFarReply_def)
next
  case (Inr slot)
  obtain r1 t1 where g: "GetHeadSlot (consensusService h) = (r1, t1)"
    by (cases "GetHeadSlot (consensusService h)") auto
  show ?thesis
  proof (cases r1)
    case (Inl err)
    with assms Inr g show ?thesis
      by (simp add: GetSyncDuties_def tooFarReply_def status_codes_distinct)
  next
    case r: (Inr headSlot)
    show ?thesis
    proof (cases "headSlot < slot")
      case True
      with Inr g r show ?thesis by simp
    next
      case False
      with assms Inr g r have False
        by (auto simp: GetSyncDuties_def tooFarReply_def status_codes_distinct
            split: prod.splits sum.splits if_splits)
      then show ?thesis ..
    qed
  qed
qed

text \<open>
  C8. When the slot parameter parses to a slot strictly greater than the head slot that
  the node reports, GetBlockReward answers 400 "requested slot is in the future" and
  GetSyncDuties answers 400 "requested slot is too far in the future", and the only
  request either has issued is the head-slot query: no beacon-block, committee or
  execution-layer request. Each endpoint gives its future-slot answer exactly when the
  parsed slot is greater than the head slot, so both use the same bound.
\<close>

theorem future_slot_rejected_before_any_fetch:
  "(\<forall>slot headSlot.
      ParseUint slotParam = Inr slot
      \<longrightarrow> fst (GetHeadSlot (consensusService h)) = Inr headSlot
      \<longrightarrow> headSlot < slot
      \<longrightarrow> GetBlockReward h slotParam = (futureSlotReply, [GET (headersUrl h)])
        \<and> GetSyncDuties h slotParam = (tooFarReply, [GET (headersUrl h)]))
   \<and> (fst (GetBlockReward h slotParam) = futureSlotReply) =
       (\<exists>slot headSlot. ParseUint slotParam = Inr slot
          \<and> fst (GetHeadSlot (consensusService h)) = Inr headSlot \<and> headSlot < slot)
   \<and> (fst (GetSyncDuties h slotParam) = tooFarReply) =
       (\<exists>slot headSlot. ParseUint slotParam = Inr slot
          \<and> fst (GetHeadSlot (consensusService h)) = Inr headSlot \<and> headSlot < slot)"
proof (intro conjI allI impI)
  fix slot headSlot
  assume a: "ParseUint slotParam = Inr slot"
    "fst (GetHeadSlot (consensusService h)) = Inr headSlot" "headSlot < slot"
  then show "GetBlockReward h slotParam = (futureSlotReply, [GET (headersUrl h)])"
    by (rule GetBlockReward_future)
  from a show "GetSyncDuties h slotParam = (tooFarReply, [GET (headersUrl h)])"
    by (rule GetSyncDuties_future)
next
  show "(fst (GetBlockReward h slotParam) = futureSlotReply) =
       (\<exists>slot headSlot. ParseUint slotParam = Inr slot
          \<and> fst (GetHeadSlot (consensusService h)) = Inr headSlot \<and> headSlot < slot)"
    using GetBlockReward_future GetBlockReward_future_only by fastforce
next
  show "(fst (GetSyncDuties h slotParam) = tooFarReply) =
       (\<exists>slot headSlot. ParseUint slotParam = Inr slot
          \<and> fst (GetHeadSlot (consensusService h)) = Inr headSlot \<and> headSlot < slot)"
    using GetSyncDuties_future GetSyncDuties_future_only by fastforce
qed

theorem future_slot_rejected_before_any_fetch_witness:
  "ParseUint ''101'' = Inr 101
   \<and> fst (GetHeadSlot (consensusService (sampleHandler ''100'' ''7'' (mkBlock [] [] [] [])))) = Inr 100
   \<and> (100 :: 64 word) < 101
   \<and> GetBlockReward (sampleHandler ''100'' ''7'' (mkBlock [] [] [] [])) ''101'' =
       (JSON 400 [(''error'', JString ''requested slot is in the future'')],
        [GET ''http://node/eth/v1/beacon/headers''])
   \<and> GetSyncDuties (sampleHandler ''100'' ''7'' (mkBlock [] [] [] [])) ''101'' =
       (JSON 400 [(''error'', JString ''requested slot is too far in the future'')],
        [GET ''http://node/eth/v1/beacon/headers''])"
proof -
  let ?h = "sampleHandler ''100'' ''7'' (mkBlock [] [] [] [])"
  have p: "ParseUint ''101'' = Inr 101" by (simp add: eval_defs)
  have g: "fst (GetHeadSlot (consensusService ?h)) = Inr 100" by (simp add: eval_defs)
  have l: "(100 :: 64 word) < 101" by simp
  have u: "headersUrl ?h = ''http://node/eth/v1/beacon/headers''"
    by (simp add: headersUrl_def sampleHandler_def)
  from future_slot_rejected_before_any_fetch [of "''101''" ?h] p g l
  have "GetBlockReward ?h ''101'' = (futureSlotReply, [GET (headersUrl ?h)])
        \<and> GetSyncDuties ?h ''101'' = (tooFarReply, [GET (headersUrl ?h)])"
    by blast
  with p g l u show ?thesis
    by (simp add: futureSlotReply_def tooFarReply_def StatusBadRequest_def)
qed

lemma unat_epoch: "unat (slot div SLOTS_PER_EPOCH) = unat slot div 32"
  by (simp add: SLOTS_PER_EPOCH_def unat_div)

lemma unat_SLOTS_PER_EPOCH: "unat SLOTS_PER_EPOCH = 32"
  by (simp add: SLOTS_PER_EPOCH_def)

lemma unat_state_id:
  fixes slot :: "64 word"
  shows "unat (slot div SLOTS_PER_EPOCH * SLOTS_PER_EPOCH) = unat slot div 32 * 32"
proof -
  have "unat slot div 32 * 32 \<le> unat slot" by simp
  moreover have "unat slot < 2 ^ 64" using unsigned_less [of slot] by simp
  ultimately have "unat slot div 32 * 32 < 2 ^ 64" by linarith
  then have "unat (slot div SLOTS_PER_EPOCH) * unat SLOTS_PER_EPOCH < 2 ^ LENGTH(64)"
    unfolding unat_epoch unat_SLOTS_PER_EPOCH by simp
  then have "unat (slot div SLOTS_PER_EPOCH * SLOTS_PER_EPOCH) =
      unat (slot div SLOTS_PER_EPOCH) * unat SLOTS_PER_EPOCH"
    by (simp only: unat_mult_lem)
  then show ?thesis unfolding unat_epoch unat_SLOTS_PER_EPOCH .
qed

lemma syncCommitteesUrl_epoch:
  "syncCommitteesUrl ep slot =
     ep @ ''/eth/v1/beacon/states/'' @ formatUint (unat slot div 32 * 32)
        @ ''/sync_committees?epoch='' @ formatUint (unat slot div 32)"
  by (simp add: syncCommitteesUrl_def Let_def unat_epoch unat_state_id)

lemma same_epoch_same_url:
  assumes "slot div 32 = slot' div 32"
  shows "syncCommitteesUrl ep slot = syncCommitteesUrl ep slot'"
  using assms by (simp add: syncCommitteesUrl_def SLOTS_PER_EPOCH_def)

text \<open>
  C9. GetSyncCommitteeDuties issues one request, whose state id is the first slot of
  the slot's epoch, 32 * (slot / 32) without wrap-around, and whose epoch parameter is
  slot / 32. Two slots of the same epoch give the same request, hence, from the same
  node, the same result: the same validator sequence or the same error.
\<close>

theorem sync_duties_depend_on_epoch_only:
  "syncCommitteesUrl (cs_endpoint c) slot =
     cs_endpoint c @ ''/eth/v1/beacon/states/'' @ formatUint (unat slot div 32 * 32)
        @ ''/sync_committees?epoch='' @ formatUint (unat slot div 32)
   \<and> unat slot div 32 * 32 \<le> unat slot
   \<and> snd (GetSyncCommitteeDuties c slot) = [GET (syncCommitteesUrl (cs_endpoint c) slot)]
   \<and> (slot div 32 = slot' div 32 \<longrightarrow>
        syncCommitteesUrl (cs_endpoint c) slot = syncCommitteesUrl (cs_endpoint c) slot'
        \<and> GetSyncCommitteeDuties c slot = GetSyncCommitteeDuties c slot')"
proof (intro conjI impI)
  show "syncCommitteesUrl (cs_endpoint c) slot =
     cs_endpoint c @ ''/eth/v1/beacon/states/'' @ formatUint (unat slot div 32 * 32)
        @ ''/sync_committees?epoch='' @ formatUint (unat slot div 32)"
    by (rule syncCommitteesUrl_epoch)
  show "unat slot div 32 * 32 \<le> unat slot" by simp
  show "snd (GetSyncCommitteeDuties c slot) = [GET (syncCommitteesUrl (cs_endpoint c) slot)]"
    by (simp add: GetSyncCommitteeDuties_def Let_def)
next
  assume e: "slot div 32 = slot' div 32"
  then show u: "syncCommitteesUrl (cs_endpoint c) slot = syncCommitteesUrl (cs_endpoint c) slot'"
    by (rule same_epoch_same_url)
  then show "GetSyncCommitteeDuties c slot = GetSyncCommitteeDuties c slot'"
    by (simp add: GetSyncCommitteeDuties_def)
qed

theorem sync_duties_depend_on_epoch_only_witness:
  "(10590951 :: 64 word) div 32 = 10590944 div 32
   \<and> syncCommitteesUrl ''http://node'' 10590951 =
       ''http://node/eth/v1/beacon/states/10590944/sync_committees?epoch=330967''
   \<and> GetSyncCommitteeDuties (consensusService (sampleHandler ''20000000'' ''7'' (mkBlock [] [] [] []))) 10590951 =
     GetSyncCommitteeDuties (consensusService (sampleHandler ''20000000'' ''7'' (mkBlock [] [] [] []))) 10590944"
proof -
  let ?c = "consensusService (sampleHandler ''20000000'' ''7'' (mkBlock [] [] [] []))"
  have h: "(10590951 :: 64 word) div 32 = 10590944 div 32" by simp
  have ep: "cs_endpoint ?c = ''http://node''" by (simp add: sampleHandler_def)
  have f: "formatUint 10590944 = ''10590944''" "formatUint 330967 = ''330967''"
    by (simp_all add: eval_defs)
  note th = sync_duties_depend_on_epoch_only [of ?c 10590951 10590944, unfolded ep]
  from th have "syncCommitteesUrl ''http://node'' 10590951 =
     ''http://node'' @ ''/eth/v1/beacon/states/'' @ formatUint (unat (10590951 :: 64 word) div 32 * 32)
        @ ''/sync_committees?epoch='' @ formatUint (unat (10590951 :: 64 word) div 32)"
    by (rule conjunct1)
  then have u: "syncCommitteesUrl ''http://node'' 10590951 =
       ''http://node/eth/v1/beacon/states/10590944/sync_committees?epoch=330967''"
    by (simp add: f)
  from th h have "GetSyncCommitteeDuties ?c 10590951 = GetSyncCommitteeDuties ?c 10590944"
    by blast
  with h u show ?thesis by blast
qed

section \<open>The execution block that is not there\<close>

lemma GetExecutionBlockByNumber_empty_number:
  assumes "es_post e (es_endpoint e)
             \<lparr>Jsonrpc = ''2.0'', Method = ''eth_getBlockByNumber'',
              Params = [PString blockNumberHex, PBool True], Id = 1\<rparr> =
           Reply StatusOK (Inr blockResp)"
      and "Number (Result blockResp) = []"
  shows "fst (GetExecutionBlockByNumber e blockNumberHex) = Inl ''block not found on execution layer''"
  using assms by (simp add: GetExecutionBlockByNumber_def Let_def)

text \<open>
  Whatever error the execution service returns, the not-found one included, the handler
  answers 500.
\<close>

lemma GetBlockReward_execution_error:
  assumes "ParseUint slotParam = Inr slot"
      and "GetHeadSlot (consensusService h) = (Inr headSlot, t1)"
      and "\<not> headSlot < slot"
      and "GetBeaconBlockBySlot (consensusService h) slot = (Inr beaconBlock, t2)"
      and "payload_BlockNumber (ExecutionPayload (Body (Message (Data beaconBlock)))) = blockNumberDecimal"
      and "blockNumberDecimal \<noteq> []"
      and "ParseUint blockNumberDecimal = Inr blockNumberInt"
      and "GetExecutionBlockByNumber (executionService h) (''0x'' @ formatHex (unat blockNumberInt))
             = (Inl err, t3)"
  shows "GetBlockReward h slotParam =
           (JSON StatusInternalServerError [(''error'', JString ''failed to get execution block'')],
            t1 @ t2 @ t3)"
  using assms by (simp add: GetBlockReward_def)

text \<open>
  C7. The execution service does tell an empty block number apart, with the error "block
  not found on execution layer"; GetBlockReward answers every error of that call with
  500 "failed to get execution block". The same handler answers a beacon block that is
  not there with 404.
\<close>

theorem execution_block_not_found_answered_500:
  "Number (Result (mkBlock [] [] [] [])) = []
   \<and> GetExecutionBlockByNumber
        (executionService (sampleHandler ''100'' ''7'' (mkBlock [] [] [] []))) ''0x7'' =
       (Inl ''block not found on execution layer'',
        [POST ''http://node''
           \<lparr>Jsonrpc = ''2.0'', Method = ''eth_getBlockByNumber'',
            Params = [PString ''0x7'', PBool True], Id = 1\<rparr>])
   \<and> GetBlockReward (sampleHandler ''100'' ''7'' (mkBlock [] [] [] [])) ''5'' =
       (JSON 500 [(''error'', JString ''failed to get execution block'')],
        [GET ''http://node/eth/v1/beacon/headers'', GET ''http://node/eth/v2/beacon/blocks/5'',
         POST ''http://node''
           \<lparr>Jsonrpc = ''2.0'', Method = ''eth_getBlockByNumber'',
            Params = [PString ''0x7'', PBool True], Id = 1\<rparr>])
   \<and> GetBlockReward noBlocksHandler ''5'' =
       (JSON 404 [(''error'', JString ''slot not found/missed'')],
        [GET ''http://node/eth/v1/beacon/headers'', GET ''http://node/eth/v2/beacon/blocks/5''])"
  by (simp add: GetBlockReward_def noBlocksHandler_def eval_defs)

end
